theory Spec2Isabelle
  imports Main
begin

section \<open>Data model\<close>

text \<open>
  The session manager is the React component \<open>UserProvider\<close> of the user context; the
  navigation bar reads it. The component's hooks (\<open>useState\<close>) are the fields of one
  record, the browser's \<open>sessionStorage\<close> is a map from keys to texts, and every
  callback is a function from a session to the next session. A callback that can throw
  returns a sum, \<open>Inl\<close> carrying the thrown value. Each callback runs to its end on
  the session it is called on: the component is single-threaded, and the interleaving of
  two pending callbacks is not modelled.
\<close>

subsection \<open>Values parsed from storage\<close>

text \<open>
  What \<open>JSON.parse\<close> returns. Numbers are kept as integers: the code never reads one,
  it only tests a stored value for being truthy. An object is the list of its own
  properties, each key once, as \<open>JSON.parse\<close> builds it.
\<close>

datatype json =
    JNull
  | JBool bool
  | JNum int
  | JStr string
  | JArr "json list"
  | JObj "(string \<times> json) list"

text \<open>Property access \<open>obj.k\<close>; \<open>None\<close> is JavaScript's \<open>undefined\<close>.\<close>

fun js_get :: "json \<Rightarrow> string \<Rightarrow> json option" where
  "js_get (JObj kvs) k = map_of kvs k"
| "js_get _ k = None"

text \<open>Truthiness of a parsed value, as \<open>&&\<close> and \<open>?:\<close> test it.\<close>

fun js_truthy :: "json \<Rightarrow> bool" where
  "js_truthy JNull = False"
| "js_truthy (JBool b) = b"
| "js_truthy (JNum n) = (n \<noteq> 0)"
| "js_truthy (JStr s) = (s \<noteq> [])"
| "js_truthy (JArr _) = True"
| "js_truthy (JObj _) = True"

subsection \<open>Authentication state\<close>

text \<open>The union type \<open>'admin' | 'user'\<close>, used for the user's role and for the view mode.\<close>

datatype role = Admin | User

text \<open>
  Modelled from the spec: the type \<open>AuthState\<close> of \<open>@/types\<close>, which is not among the
  sources: \<open>{ isAuthenticated: bool, email: string|null, userRole: "admin"|"user"|null }\<close>.
\<close>

record AuthState =
  isAuthenticated :: bool
  email :: "string option"
  userRole :: "role option"

text \<open>The object literal of the default, unauthenticated state.\<close>

definition defaultAuthState :: AuthState where
  "defaultAuthState = \<lparr>isAuthenticated = False, email = None, userRole = None\<rparr>"

text \<open>The invariant the specification states for \<open>AuthState\<close>.\<close>

definition authInvariant :: "AuthState \<Rightarrow> bool" where
  "authInvariant a = (\<not> isAuthenticated a \<longrightarrow> email a = None \<and> userRole a = None)"

text \<open>The literals of the role type as the strings they are in JavaScript.\<close>

fun role_json :: "role \<Rightarrow> json" where
  "role_json Admin = JStr ''admin''"
| "role_json User = JStr ''user''"

text \<open>An \<open>AuthState\<close> as the JavaScript object that \<open>JSON.stringify\<close> receives.\<close>

definition AuthState_json :: "AuthState \<Rightarrow> json" where
  "AuthState_json a = JObj
     [(''isAuthenticated'', JBool (isAuthenticated a)),
      (''email'', (case email a of None \<Rightarrow> JNull | Some e \<Rightarrow> JStr e)),
      (''userRole'', (case userRole a of None \<Rightarrow> JNull | Some r \<Rightarrow> role_json r))]"

text \<open>
  The type guard \<open>isAuthState\<close>. \<open>typeof obj === 'object' && obj !== null\<close> holds of
  objects and arrays; a missing property reads as \<open>undefined\<close>, which is neither a
  boolean, nor a string, nor \<open>null\<close>, nor a member of \<open>validRoles\<close>.
\<close>

definition validRoles :: "json list" where
  "validRoles = [JStr ''admin'', JStr ''user'', JNull]"

definition isAuthState :: "json \<Rightarrow> bool" where
  "isAuthState obj =
     ((case obj of JObj _ \<Rightarrow> True | JArr _ \<Rightarrow> True | _ \<Rightarrow> False) \<and>
      (case js_get obj ''isAuthenticated'' of Some (JBool _) \<Rightarrow> True | _ \<Rightarrow> False) \<and>
      (case js_get obj ''email'' of Some (JStr _) \<Rightarrow> True | Some JNull \<Rightarrow> True | _ \<Rightarrow> False) \<and>
      (case js_get obj ''userRole'' of
         None \<Rightarrow> False
       | Some r \<Rightarrow> r \<in> set validRoles \<or> r = JNull))"

text \<open>
  A value that passed the guard, read at the type \<open>AuthState\<close>: the three properties the
  session manager reads from it.
\<close>

definition toAuthState :: "json \<Rightarrow> AuthState" where
  "toAuthState obj =
     \<lparr>isAuthenticated = (js_get obj ''isAuthenticated'' = Some (JBool True)),
      email = (case js_get obj ''email'' of Some (JStr e) \<Rightarrow> Some e | _ \<Rightarrow> None),
      userRole = (case js_get obj ''userRole'' of
                    Some (JStr r) \<Rightarrow> (if r = ''admin'' then Some Admin
                                     else if r = ''user'' then Some User else None)
                  | _ \<Rightarrow> None)\<rparr>"

subsection \<open>Errors, the backend client and the environment\<close>

text \<open>
  A thrown value, by what the handlers test of it: \<open>error instanceof Error\<close>, the
  property \<open>status\<close> when it is present and a number, and
  \<open>error instanceof AuthenticationError\<close>.
\<close>

datatype js_error = JsError (instanceofError: bool) (status: "int option")
  (instanceofAuthenticationError: bool)

text \<open>
  The client object of the library \<open>r2r-js\<close>: the base URL it was built with (the
  value \<open>undefined\<close> is \<open>None\<close>) and the two tokens \<open>setTokens\<close> stores.
\<close>

record r2rClient =
  baseUrl :: "json option"
  accessToken :: "string option"
  refreshToken :: "string option"

definition new_r2rClient :: "json option \<Rightarrow> r2rClient" where
  "new_r2rClient url = \<lparr>baseUrl = url, accessToken = None, refreshToken = None\<rparr>"

definition setTokens :: "r2rClient \<Rightarrow> string \<Rightarrow> string \<Rightarrow> r2rClient" where
  "setTokens c a r = c\<lparr>accessToken := Some a, refreshToken := Some r\<rparr>"

text \<open>The tokens of a login or refresh response (\<open>access_token.token\<close>, \<open>refresh_token.token\<close>).\<close>

record tokens =
  access_token :: string
  refresh_token :: string

text \<open>
  Everything the component calls and does not define: the JSON functions of the
  JavaScript runtime and the answers of the backend to each call of the client.
\<close>

record world =
  JSON_parse :: "string \<Rightarrow> js_error + json"
  JSON_stringify :: "json \<Rightarrow> string"
  r2r_login :: "r2rClient \<Rightarrow> string \<Rightarrow> string \<Rightarrow> js_error + tokens"
  r2r_loginWithToken :: "r2rClient \<Rightarrow> string \<Rightarrow> js_error + string"
  r2r_appSettings :: "r2rClient \<Rightarrow> js_error + unit"
  r2r_logout :: "r2rClient \<Rightarrow> js_error + unit"
  r2r_refreshAccessToken :: "r2rClient \<Rightarrow> js_error + tokens"
  r2r_register :: "r2rClient \<Rightarrow> string \<Rightarrow> string \<Rightarrow> js_error + unit"

subsection \<open>The session\<close>

datatype console_entry = Log string | Warn string | Error string

datatype api_call =
    CallLogin r2rClient string string
  | CallLoginWithToken r2rClient string
  | CallAppSettings r2rClient
  | CallLogout r2rClient
  | CallRefreshAccessToken r2rClient
  | CallRegister r2rClient string string

text \<open>
  The hooks of \<open>UserProvider\<close>, the storage, and two traces that record what the
  component did to the outside: the lines written to the console and the calls made to
  the backend, oldest first.
\<close>

record session =
  authState :: AuthState
  client :: "r2rClient option"
  pipeline :: json
  selectedModel :: string
  viewMode :: role
  lastLoginTime :: "int option"
  isReady :: bool
  sessionStorage :: "string \<rightharpoonup> string"
  console :: "console_entry list"
  requests :: "api_call list"

definition console_log :: "console_entry \<Rightarrow> session \<Rightarrow> session" where
  "console_log e s = s\<lparr>console := console s @ [e]\<rparr>"

definition request :: "api_call \<Rightarrow> session \<Rightarrow> session" where
  "request c s = s\<lparr>requests := requests s @ [c]\<rparr>"

definition setItem :: "string \<Rightarrow> string \<Rightarrow> session \<Rightarrow> session" where
  "setItem k v s = s\<lparr>sessionStorage := (sessionStorage s)(k \<mapsto> v)\<rparr>"

definition removeItem :: "string \<Rightarrow> session \<Rightarrow> session" where
  "removeItem k s = s\<lparr>sessionStorage := (sessionStorage s)(k := None)\<rparr>"

text \<open>The object literal \<open>{ deploymentUrl: instanceUrl }\<close>.\<close>

definition newPipeline :: "string \<Rightarrow> json" where
  "newPipeline instanceUrl = JObj [(''deploymentUrl'', JStr instanceUrl)]"

section \<open>The session manager\<close>

subsection \<open>First render and mount\<close>

text \<open>
  The initializers of the hooks. \<open>hasWindow\<close> is \<open>typeof window !== 'undefined'\<close>.
  \<open>getItem\<close> gives \<open>null\<close> for a missing key; a text is truthy when it is not empty.
  \<open>JSON.parse\<close> is called with no handler around it, so what it throws leaves the
  initializer.
\<close>

definition initPipeline :: "bool \<Rightarrow> world \<Rightarrow> (string \<rightharpoonup> string) \<Rightarrow> js_error + json" where
  "initPipeline hasWindow w st =
     (if hasWindow then
        (case st ''pipeline'' of
           None \<Rightarrow> Inr JNull
         | Some storedPipeline \<Rightarrow>
             if storedPipeline \<noteq> [] then JSON_parse w storedPipeline else Inr JNull)
      else Inr JNull)"

definition initSelectedModel :: "bool \<Rightarrow> (string \<rightharpoonup> string) \<Rightarrow> string" where
  "initSelectedModel hasWindow st =
     (if hasWindow then
        (case st ''selectedModel'' of None \<Rightarrow> [] | Some m \<Rightarrow> m)
      else ''null'')"

text \<open>The initializer of \<open>authState\<close>: the restored value and the lines it writes to the console.\<close>

definition initAuthState ::
  "bool \<Rightarrow> world \<Rightarrow> (string \<rightharpoonup> string) \<Rightarrow> js_error + (AuthState \<times> console_entry list)" where
  "initAuthState hasWindow w st =
     (if hasWindow then
        (case st ''authState'' of
           None \<Rightarrow> Inr (defaultAuthState, [])
         | Some storedAuthState \<Rightarrow>
             if storedAuthState \<noteq> [] then
               (case JSON_parse w storedAuthState of
                  Inl error \<Rightarrow> Inl error
                | Inr parsed \<Rightarrow>
                    if isAuthState parsed then Inr (toAuthState parsed, [])
                    else Inr (defaultAuthState,
                      [Warn ''Invalid authState found in sessionStorage. Resetting to default.'']))
             else Inr (defaultAuthState, []))
      else Inr (defaultAuthState, []))"

text \<open>
  The two places that rebuild the client, the effect after authentication and the
  handler of \<open>routeChangeComplete\<close>, have the same body and differ in the line they log.
\<close>

definition rebuildClient :: "string \<Rightarrow> session \<Rightarrow> session" where
  "rebuildClient msg s =
     (if isAuthenticated (authState s) \<and> js_truthy (pipeline s) \<and> client s = None then
        (let s1 = console_log (Log msg) s;
             newClient = new_r2rClient (js_get (pipeline s) ''deploymentUrl'');
             newClient' =
               (case (sessionStorage s ''accessToken'', sessionStorage s ''refreshToken'') of
                  (Some a, Some r) \<Rightarrow>
                    if a \<noteq> [] \<and> r \<noteq> [] then setTokens newClient a r else newClient
                | _ \<Rightarrow> newClient)
         in s1\<lparr>client := Some newClient'\<rparr>)
      else s)"

definition initializeClient :: "session \<Rightarrow> session" where
  "initializeClient = rebuildClient ''Initializing client after authentication''"

definition handleRouteChange :: "session \<Rightarrow> session" where
  "handleRouteChange = rebuildClient ''Initializing client after route change''"

text \<open>
  The first render of \<open>UserProvider\<close> on a storage and, in the browser, the effects of
  the mount in their order: the client is rebuilt, \<open>isReady\<close> is set, the selected model
  is written back. On the server no effect runs. The refresh effect, which logs a line and
  sets the timers, is not part of the model; what the timers call,
  \<open>refreshTokenPeriodically\<close>, is.
\<close>

definition UserProvider ::
  "bool \<Rightarrow> world \<Rightarrow> (string \<rightharpoonup> string) \<Rightarrow> js_error + session" where
  "UserProvider hasWindow w st =
     (case initPipeline hasWindow w st of
        Inl error \<Rightarrow> Inl error
      | Inr p \<Rightarrow>
          (case initAuthState hasWindow w st of
             Inl error \<Rightarrow> Inl error
           | Inr (a, warnings) \<Rightarrow>
               (let s0 = \<lparr>authState = a, client = None, pipeline = p,
                          selectedModel = initSelectedModel hasWindow st,
                          viewMode = Admin, lastLoginTime = None, isReady = False,
                          sessionStorage = st, console = warnings, requests = []\<rparr>
                in Inr (if hasWindow then
                          (let s1 = initializeClient s0;
                               s2 = s1\<lparr>isReady := True\<rparr>
                           in setItem ''selectedModel'' (selectedModel s2) s2)
                        else s0))))"

subsection \<open>Login\<close>

text \<open>
  The probe of the role after a login, the same block in \<open>login\<close> and in
  \<open>loginWithToken\<close>: both arms of the handler only log.
\<close>

definition checkUserRole :: "world \<Rightarrow> r2rClient \<Rightarrow> session \<Rightarrow> role \<times> session" where
  "checkUserRole w c s =
     (let s1 = request (CallAppSettings c) s
      in case r2r_appSettings w c of
           Inr _ \<Rightarrow> (Admin, s1)
         | Inl error \<Rightarrow>
             (User,
              if instanceofError error \<and> status error = Some 403
              then console_log (Log ''User does not have admin privileges'') s1
              else console_log (Error ''Unexpected error when checking user role:'') s1))"

text \<open>The value \<open>{ success, userRole }\<close> that both logins resolve to.\<close>

record login_result =
  success :: bool
  resultRole :: role

text \<open>\<open>now\<close> is the value of \<open>Date.now()\<close> when the login has been answered.\<close>

definition login ::
  "world \<Rightarrow> int \<Rightarrow> string \<Rightarrow> string \<Rightarrow> string \<Rightarrow> session
     \<Rightarrow> (js_error + login_result) \<times> session" where
  "login w now em password instanceUrl s =
     (let s1 = console_log (Log (''Attempting login for '' @ em @ '' to '' @ instanceUrl)) s;
          newClient = new_r2rClient (Some (JStr instanceUrl));
          s2 = request (CallLogin newClient em password) s1
      in case r2r_login w newClient em password of
           Inl error \<Rightarrow> (Inl error, console_log (Error ''Login failed:'') s2)
         | Inr tk \<Rightarrow>
             (let s3 = setItem ''refreshToken'' (refresh_token tk)
                         (setItem ''accessToken'' (access_token tk) s2);
                  newClient' = setTokens newClient (access_token tk) (refresh_token tk);
                  s4 = s3\<lparr>client := Some newClient'\<rparr>;
                  (r, s5) = checkUserRole w newClient' s4;
                  newAuthState = \<lparr>isAuthenticated = True, email = Some em, userRole = Some r\<rparr>;
                  s6 = setItem ''authState'' (JSON_stringify w (AuthState_json newAuthState))
                         (s5\<lparr>authState := newAuthState\<rparr>);
                  s7 = s6\<lparr>lastLoginTime := Some now\<rparr>;
                  s8 = setItem ''pipeline'' (JSON_stringify w (newPipeline instanceUrl))
                         (s7\<lparr>pipeline := newPipeline instanceUrl\<rparr>)
              in (Inr \<lparr>success = True, resultRole = r\<rparr>, s8)))"

definition loginWithToken ::
  "world \<Rightarrow> int \<Rightarrow> string \<Rightarrow> string \<Rightarrow> session \<Rightarrow> (js_error + login_result) \<times> session" where
  "loginWithToken w now token instanceUrl s =
     (let s1 = console_log (Log (''Attempting login with token to '' @ instanceUrl)) s;
          newClient = new_r2rClient (Some (JStr instanceUrl));
          s2 = request (CallLoginWithToken newClient token) s1
      in case r2r_loginWithToken w newClient token of
           Inl error \<Rightarrow> (Inl error, console_log (Error ''Login with token failed:'') s2)
         | Inr access \<Rightarrow>
             (let s3 = setItem ''accessToken'' access s2;
                  newClient' = setTokens newClient access [];
                  s4 = s3\<lparr>client := Some newClient'\<rparr>;
                  (r, s5) = checkUserRole w newClient' s4;
                  newAuthState = \<lparr>isAuthenticated = True, email = Some [], userRole = Some r\<rparr>;
                  s6 = setItem ''authState'' (JSON_stringify w (AuthState_json newAuthState))
                         (s5\<lparr>authState := newAuthState\<rparr>);
                  s7 = s6\<lparr>lastLoginTime := Some now\<rparr>;
                  s8 = setItem ''pipeline'' (JSON_stringify w (newPipeline instanceUrl))
                         (s7\<lparr>pipeline := newPipeline instanceUrl\<rparr>)
              in (Inr \<lparr>success = True, resultRole = r\<rparr>, s8)))"

subsection \<open>Logout, registration, refresh\<close>

text \<open>
  \<open>logout\<close> is a \<open>useCallback\<close> with the dependencies \<open>client\<close> and
  \<open>authState.isAuthenticated\<close>: the function reads both from the render that created
  it, not from the session it runs on. \<open>capturedClient\<close> and \<open>capturedAuthenticated\<close>
  are these two values; everything else the function does is a write.
\<close>

definition logout :: "world \<Rightarrow> r2rClient option \<Rightarrow> bool \<Rightarrow> session \<Rightarrow> session" where
  "logout w capturedClient capturedAuthenticated s =
     (let s1 = console_log (Log ''Logging out user'') s;
          s2 = (case capturedClient of
                  None \<Rightarrow> s1
                | Some c \<Rightarrow>
                    if capturedAuthenticated then
                      (let s' = request (CallLogout c) s1
                       in case r2r_logout w c of
                            Inr _ \<Rightarrow> s'
                          | Inl error \<Rightarrow> console_log (Error ''Logout failed:'') s')
                    else s1);
          s3 = s2\<lparr>authState := \<lparr>isAuthenticated = False, email = None, userRole = None\<rparr>\<rparr>;
          s4 = removeItem ''refreshToken'' (removeItem ''accessToken''
                 (removeItem ''authState'' (removeItem ''pipeline'' s3)));
          s5 = s4\<lparr>pipeline := JNull, client := None\<rparr>
      in console_log (Log ''User logged out successfully'') s5)"

text \<open>A client that was just constructed is an object, so the branch for a missing client is dead.\<close>

definition register ::
  "world \<Rightarrow> string \<Rightarrow> string \<Rightarrow> string \<Rightarrow> session \<Rightarrow> (js_error + unit) \<times> session" where
  "register w em password instanceUrl s =
     (let s1 = console_log (Log (''Attempting to register user: '' @ em)) s;
          newClient = new_r2rClient (Some (JStr instanceUrl));
          s2 = request (CallRegister newClient em password) s1
      in case r2r_register w newClient em password of
           Inr _ \<Rightarrow> (Inr (), console_log (Log ''User registered successfully'') s2)
         | Inl error \<Rightarrow> (Inl error, console_log (Error ''Failed to create user:'') s2))"

text \<open>
  The guard \<open>lastLoginTime && Date.now() - lastLoginTime < 5 * 60 * 1000\<close>: a number is
  truthy when it is not zero. \<open>now\<close> is \<open>Date.now()\<close> at the guard.
\<close>

definition refreshTooEarly :: "int option \<Rightarrow> int \<Rightarrow> bool" where
  "refreshTooEarly lastLogin now =
     (case lastLogin of None \<Rightarrow> False | Some t \<Rightarrow> t \<noteq> 0 \<and> now - t < 5 * 60 * 1000)"

text \<open>
  \<open>now'\<close> is \<open>Date.now()\<close> after the backend has answered the refresh. The \<open>logout\<close>
  the callback calls is the one of its own render (it is among the dependencies), so it
  has captured the client and the flag that the callback itself reads.
\<close>

definition refreshTokenPeriodically :: "world \<Rightarrow> int \<Rightarrow> int \<Rightarrow> session \<Rightarrow> session" where
  "refreshTokenPeriodically w now now' s =
     (case client s of
        None \<Rightarrow> s
      | Some c \<Rightarrow>
          if \<not> isAuthenticated (authState s) then s
          else if refreshTooEarly (lastLoginTime s) now then s
          else
            (let s1 = console_log (Log ''Attempting to refresh token'') s;
                 s2 = request (CallRefreshAccessToken c) s1
             in case r2r_refreshAccessToken w c of
                  Inr newTokens \<Rightarrow>
                    (let s3 = setItem ''refreshToken'' (refresh_token newTokens)
                                (setItem ''accessToken'' (access_token newTokens) s2);
                         s4 = s3\<lparr>client :=
                                Some (setTokens c (access_token newTokens) (refresh_token newTokens))\<rparr>;
                         s5 = s4\<lparr>lastLoginTime := Some now'\<rparr>
                     in console_log (Log ''Token refreshed successfully'') s5)
                | Inl error \<Rightarrow>
                    (let s3 = console_log (Error ''Failed to refresh token:'') s2
                     in if instanceofAuthenticationError error then
                          logout w (client s) (isAuthenticated (authState s))
                            (console_log (Error ''Failed to re-authenticate:'')
                              (console_log (Log ''Authentication error, attempting to re-login'') s3))
                        else logout w (client s) (isAuthenticated (authState s)) s3)))"

subsection \<open>The rest of the context value\<close>

definition getClient :: "session \<Rightarrow> r2rClient option" where
  "getClient s = client s"

definition isSuperUser :: "session \<Rightarrow> bool" where
  "isSuperUser s = (userRole (authState s) = Some Admin \<and> viewMode s = Admin)"

definition setViewMode :: "role \<Rightarrow> session \<Rightarrow> session" where
  "setViewMode m s = s\<lparr>viewMode := m\<rparr>"

definition setPipeline :: "json \<Rightarrow> session \<Rightarrow> session" where
  "setPipeline p s = s\<lparr>pipeline := p\<rparr>"

text \<open>Setting the selected model runs the effect that writes it to the storage.\<close>

definition setSelectedModel :: "string \<Rightarrow> session \<Rightarrow> session" where
  "setSelectedModel m s = setItem ''selectedModel'' m (s\<lparr>selectedModel := m\<rparr>)"

section \<open>The navigation bar\<close>

text \<open>
  \<open>viewMode === 'user' ? 'user' : authState.userRole || 'user'\<close>: the operator \<open>||\<close>
  binds tighter than the conditional, and \<open>null\<close> is the only falsy role.
\<close>

definition effectiveRole :: "role \<Rightarrow> AuthState \<Rightarrow> role" where
  "effectiveRole vm a =
     (if vm = User then User else (case userRole a of None \<Rightarrow> User | Some r \<Rightarrow> r))"

definition isAdmin :: "bool \<Rightarrow> AuthState \<Rightarrow> bool" where
  "isAdmin isAuth a = (isAuth \<and> userRole a = Some Admin)"

definition toggleViewMode :: "role \<Rightarrow> role" where
  "toggleViewMode vm = (if vm = Admin then User else Admin)"

text \<open>The formula of the specification, in its words: \<open>viewMode == user ? "user" : authState.userRole\<close>.\<close>

definition effectiveRole_spec :: "role \<Rightarrow> AuthState \<Rightarrow> role option" where
  "effectiveRole_spec vm a = (if vm = User then Some User else userRole a)"

section \<open>Reachable sessions\<close>

text \<open>
  The sessions the component can be in: the one the mount produces from a storage, and
  every session a callback or an effect produces from a reachable one. The backend may
  answer each call differently, so every step has a world of its own; \<open>w0\<close> is the world
  of the mount, whose \<open>JSON.parse\<close> reads the storage. A \<open>logout\<close> that is called may be
  the function of any earlier render, so the client and the flag it has captured are
  left open.
\<close>

inductive reachable :: "bool \<Rightarrow> world \<Rightarrow> (string \<rightharpoonup> string) \<Rightarrow> session \<Rightarrow> bool"
  for hasWindow :: bool and w0 :: world and st0 :: "string \<rightharpoonup> string" where
  start: "UserProvider hasWindow w0 st0 = Inr s \<Longrightarrow> reachable hasWindow w0 st0 s"
| do_login: "reachable hasWindow w0 st0 s \<Longrightarrow>
     reachable hasWindow w0 st0 (snd (login w now em password instanceUrl s))"
| do_loginWithToken: "reachable hasWindow w0 st0 s \<Longrightarrow>
     reachable hasWindow w0 st0 (snd (loginWithToken w now token instanceUrl s))"
| do_logout: "reachable hasWindow w0 st0 s \<Longrightarrow>
     reachable hasWindow w0 st0 (logout w capturedClient capturedAuthenticated s)"
| do_refresh: "reachable hasWindow w0 st0 s \<Longrightarrow>
     reachable hasWindow w0 st0 (refreshTokenPeriodically w now now' s)"
| do_setViewMode: "reachable hasWindow w0 st0 s \<Longrightarrow>
     reachable hasWindow w0 st0 (setViewMode m s)"
| do_register: "reachable hasWindow w0 st0 s \<Longrightarrow>
     reachable hasWindow w0 st0 (snd (register w em password instanceUrl s))"
| do_setPipeline: "reachable hasWindow w0 st0 s \<Longrightarrow>
     reachable hasWindow w0 st0 (setPipeline p s)"
| do_setSelectedModel: "reachable hasWindow w0 st0 s \<Longrightarrow>
     reachable hasWindow w0 st0 (setSelectedModel m s)"
| do_initializeClient: "reachable hasWindow w0 st0 s \<Longrightarrow>
     reachable hasWindow w0 st0 (initializeClient s)"
| do_handleRouteChange: "reachable hasWindow w0 st0 s \<Longrightarrow>
     reachable hasWindow w0 st0 (handleRouteChange s)"

text \<open>
  A storage whose \<open>authState\<close> entry, where it parses and passes the type guard, holds a
  state that satisfies the invariant.
\<close>

definition storedAuthState_ok :: "world \<Rightarrow> (string \<rightharpoonup> string) \<Rightarrow> bool" where
  "storedAuthState_ok w st =
     (case st ''authState'' of
        None \<Rightarrow> True
      | Some t \<Rightarrow>
          (case JSON_parse w t of
             Inl _ \<Rightarrow> True
           | Inr parsed \<Rightarrow> isAuthState parsed \<longrightarrow> authInvariant (toAuthState parsed)))"

text \<open>
  The sessions of a run whose clock is past the epoch: the same steps, with every value
  that \<open>Date.now()\<close> returns positive. \<open>Date.now()\<close> is the number of milliseconds since
  1 January 1970.
\<close>

inductive reachable_clock :: "bool \<Rightarrow> world \<Rightarrow> (string \<rightharpoonup> string) \<Rightarrow> session \<Rightarrow> bool"
  for hasWindow :: bool and w0 :: world and st0 :: "string \<rightharpoonup> string" where
  clock_start: "UserProvider hasWindow w0 st0 = Inr s \<Longrightarrow> reachable_clock hasWindow w0 st0 s"
| clock_login: "reachable_clock hasWindow w0 st0 s \<Longrightarrow> 0 < now \<Longrightarrow>
     reachable_clock hasWindow w0 st0 (snd (login w now em password instanceUrl s))"
| clock_loginWithToken: "reachable_clock hasWindow w0 st0 s \<Longrightarrow> 0 < now \<Longrightarrow>
     reachable_clock hasWindow w0 st0 (snd (loginWithToken w now token instanceUrl s))"
| clock_logout: "reachable_clock hasWindow w0 st0 s \<Longrightarrow>
     reachable_clock hasWindow w0 st0 (logout w capturedClient capturedAuthenticated s)"
| clock_refresh: "reachable_clock hasWindow w0 st0 s \<Longrightarrow> 0 < now \<Longrightarrow> 0 < now' \<Longrightarrow>
     reachable_clock hasWindow w0 st0 (refreshTokenPeriodically w now now' s)"
| clock_setViewMode: "reachable_clock hasWindow w0 st0 s \<Longrightarrow>
     reachable_clock hasWindow w0 st0 (setViewMode m s)"
| clock_register: "reachable_clock hasWindow w0 st0 s \<Longrightarrow>
     reachable_clock hasWindow w0 st0 (snd (register w em password instanceUrl s))"
| clock_setPipeline: "reachable_clock hasWindow w0 st0 s \<Longrightarrow>
     reachable_clock hasWindow w0 st0 (setPipeline p s)"
| clock_setSelectedModel: "reachable_clock hasWindow w0 st0 s \<Longrightarrow>
     reachable_clock hasWindow w0 st0 (setSelectedModel m s)"
| clock_initializeClient: "reachable_clock hasWindow w0 st0 s \<Longrightarrow>
     reachable_clock hasWindow w0 st0 (initializeClient s)"
| clock_handleRouteChange: "reachable_clock hasWindow w0 st0 s \<Longrightarrow>
     reachable_clock hasWindow w0 st0 (handleRouteChange s)"

section \<open>An example world and example sessions\<close>

text \<open>
  Stored texts, written with \<open>quoted\<close> for the double quotes of JSON. \<open>text_admin\<close> is
  what \<open>JSON.stringify\<close> gives for the authentication state of a logged-in administrator,
  \<open>text_token\<close> for the state after a login with a token; \<open>text_stale\<close> has the same shape with \<open>isAuthenticated\<close> false; \<open>text_superadmin\<close> has a
  role outside the role type; \<open>text_unparsable\<close> is what a storage holds when an object
  was stored without \<open>JSON.stringify\<close>, and is not JSON.
\<close>

definition quoted :: "string \<Rightarrow> string" where
  "quoted s = CHR 0x22 # s @ [CHR 0x22]"

definition adminAuth :: AuthState where
  "adminAuth =
     \<lparr>isAuthenticated = True, email = Some ''admin@example.com'', userRole = Some Admin\<rparr>"

definition text_admin :: string where
  "text_admin = ''{'' @ quoted ''isAuthenticated'' @ '':true,'' @ quoted ''email'' @ '':''
     @ quoted ''admin@example.com'' @ '','' @ quoted ''userRole'' @ '':'' @ quoted ''admin'' @ ''}''"

definition obj_stale :: json where
  "obj_stale = JObj [(''isAuthenticated'', JBool False), (''email'', JStr ''admin@example.com''),
     (''userRole'', JStr ''admin'')]"

definition text_stale :: string where
  "text_stale = ''{'' @ quoted ''isAuthenticated'' @ '':false,'' @ quoted ''email'' @ '':''
     @ quoted ''admin@example.com'' @ '','' @ quoted ''userRole'' @ '':'' @ quoted ''admin'' @ ''}''"

definition obj_superadmin :: json where
  "obj_superadmin = JObj [(''isAuthenticated'', JBool True), (''email'', JStr ''admin@example.com''),
     (''userRole'', JStr ''superadmin'')]"

definition text_superadmin :: string where
  "text_superadmin = ''{'' @ quoted ''isAuthenticated'' @ '':true,'' @ quoted ''email'' @ '':''
     @ quoted ''admin@example.com'' @ '','' @ quoted ''userRole'' @ '':'' @ quoted ''superadmin''
     @ ''}''"

definition tokenAuth :: AuthState where
  "tokenAuth = \<lparr>isAuthenticated = True, email = Some [], userRole = Some User\<rparr>"

definition text_token :: string where
  "text_token = ''{'' @ quoted ''isAuthenticated'' @ '':true,'' @ quoted ''email'' @ '':''
     @ quoted [] @ '','' @ quoted ''userRole'' @ '':'' @ quoted ''user'' @ ''}''"

definition text_unparsable :: string where
  "text_unparsable = ''[object Object]''"

definition sample_url :: string where
  "sample_url = ''http://localhost:7272''"

definition text_pipeline :: string where
  "text_pipeline = ''{'' @ quoted ''deploymentUrl'' @ '':'' @ quoted sample_url @ ''}''"

text \<open>The \<open>SyntaxError\<close> that \<open>JSON.parse\<close> throws.\<close>

definition syntaxError :: js_error where
  "syntaxError = JsError True None False"

text \<open>
  The JSON functions of the example world are given on the texts and values above, where
  they agree with JavaScript's; the examples use them nowhere else.
\<close>

definition sample_parse :: "string \<Rightarrow> js_error + json" where
  "sample_parse t =
     (if t = text_admin then Inr (AuthState_json adminAuth)
      else if t = text_token then Inr (AuthState_json tokenAuth)
      else if t = text_stale then Inr obj_stale
      else if t = text_superadmin then Inr obj_superadmin
      else if t = text_pipeline then Inr (newPipeline sample_url)
      else Inl syntaxError)"

definition sample_stringify :: "json \<Rightarrow> string" where
  "sample_stringify j =
     (if j = AuthState_json adminAuth then text_admin
      else if j = AuthState_json tokenAuth then text_token
      else if j = newPipeline sample_url then text_pipeline
      else ''null'')"

text \<open>
  A backend that accepts one password and one issued token, grants the settings to the
  session of the password login only, and refreshes only a client that holds the refresh
  token of that login.
\<close>

definition sample_world :: world where
  "sample_world =
     \<lparr>JSON_parse = sample_parse,
      JSON_stringify = sample_stringify,
      r2r_login = (\<lambda>c em pw.
         if pw = ''correct horse''
         then Inr \<lparr>access_token = ''access-1'', refresh_token = ''refresh-1''\<rparr>
         else Inl (JsError True (Some 401) False)),
      r2r_loginWithToken = (\<lambda>c tok.
         if tok = ''issued-token'' then Inr ''access-2'' else Inl (JsError True (Some 401) False)),
      r2r_appSettings = (\<lambda>c.
         if accessToken c = Some ''access-1'' then Inr () else Inl (JsError True (Some 403) False)),
      r2r_logout = (\<lambda>c. Inr ()),
      r2r_refreshAccessToken = (\<lambda>c.
         if refreshToken c = Some ''refresh-1''
         then Inr \<lparr>access_token = ''access-3'', refresh_token = ''refresh-3''\<rparr>
         else Inl (JsError True (Some 401) True)),
      r2r_register = (\<lambda>c em pw. Inr ())\<rparr>"

text \<open>The session after a mount on an empty storage.\<close>

definition fresh_session :: session where
  "fresh_session =
     \<lparr>authState = defaultAuthState, client = None, pipeline = JNull, selectedModel = [],
      viewMode = Admin, lastLoginTime = None, isReady = True,
      sessionStorage = [''selectedModel'' \<mapsto> []], console = [], requests = []\<rparr>"

text \<open>Sessions after a password login and after a token login, both at time 1000.\<close>

definition admin_session :: session where
  "admin_session =
     snd (login sample_world 1000 ''admin@example.com'' ''correct horse'' sample_url fresh_session)"

definition token_session :: session where
  "token_session =
     snd (loginWithToken sample_world 1000 ''issued-token'' sample_url fresh_session)"

definition admin_client :: r2rClient where
  "admin_client = \<lparr>baseUrl = Some (JStr sample_url), accessToken = Some ''access-1'',
     refreshToken = Some ''refresh-1''\<rparr>"

definition token_client :: r2rClient where
  "token_client = \<lparr>baseUrl = Some (JStr sample_url), accessToken = Some ''access-2'',
     refreshToken = Some []\<rparr>"

text \<open>A storage holding a state that is not authenticated and still names a user, and the
  session the mount restores from it.\<close>

definition stale_store :: "string \<rightharpoonup> string" where
  "stale_store = [''authState'' \<mapsto> text_stale]"

definition stale_session :: session where
  "stale_session =
     \<lparr>authState =
        \<lparr>isAuthenticated = False, email = Some ''admin@example.com'', userRole = Some Admin\<rparr>,
      client = None, pipeline = JNull, selectedModel = [],
      viewMode = Admin, lastLoginTime = None, isReady = True,
      sessionStorage = stale_store(''selectedModel'' \<mapsto> []), console = [], requests = []\<rparr>"

text \<open>The storage the password login leaves behind, and the session a page reload restores
  from it: authenticated, with a rebuilt client and no \<open>lastLoginTime\<close>.\<close>

definition reload_store :: "string \<rightharpoonup> string" where
  "reload_store = sessionStorage admin_session"

definition reload_session :: session where
  "reload_session =
     \<lparr>authState = adminAuth, client = Some admin_client, pipeline = newPipeline sample_url,
      selectedModel = [], viewMode = Admin, lastLoginTime = None, isReady = True,
      sessionStorage = reload_store,
      console = [Log ''Initializing client after authentication''], requests = []\<rparr>"

text \<open>The session of the password login after a model was selected.\<close>

definition model_session :: session where
  "model_session = setSelectedModel ''gpt-4o'' admin_session"

section \<open>Auxiliary facts\<close>

subsection \<open>What each operation does to the fields\<close>

lemmas session_ops = console_log_def request_def setItem_def removeItem_def

lemma logout_fields:
  "authState (logout w cl b s) = defaultAuthState"
  "client (logout w cl b s) = None"
  "pipeline (logout w cl b s) = JNull"
  "selectedModel (logout w cl b s) = selectedModel s"
  "viewMode (logout w cl b s) = viewMode s"
  "lastLoginTime (logout w cl b s) = lastLoginTime s"
  "isReady (logout w cl b s) = isReady s"
  "sessionStorage (logout w cl b s) =
     (sessionStorage s)(''pipeline'' := None, ''authState'' := None, ''accessToken'' := None,
        ''refreshToken'' := None)"
  "requests (logout w cl b s) = requests s @
     (case cl of
        None \<Rightarrow> []
      | Some c \<Rightarrow> if b then [CallLogout c] else [])"
  by (simp_all add: logout_def session_ops defaultAuthState_def Let_def
      split: sum.splits option.splits)

lemma checkUserRole_fields:
  "fst (checkUserRole w c s) = (case r2r_appSettings w c of Inr _ \<Rightarrow> Admin | Inl _ \<Rightarrow> User)"
  "authState (snd (checkUserRole w c s)) = authState s"
  "client (snd (checkUserRole w c s)) = client s"
  "pipeline (snd (checkUserRole w c s)) = pipeline s"
  "lastLoginTime (snd (checkUserRole w c s)) = lastLoginTime s"
  "sessionStorage (snd (checkUserRole w c s)) = sessionStorage s"
  "requests (snd (checkUserRole w c s)) = requests s @ [CallAppSettings c]"
  by (simp_all add: checkUserRole_def session_ops Let_def split: sum.splits)

lemma authState_login:
  "authState (snd (login w now em pw url s)) = authState s \<or>
   isAuthenticated (authState (snd (login w now em pw url s)))"
  by (simp add: login_def session_ops Let_def split: sum.splits prod.splits)

lemma authState_loginWithToken:
  "authState (snd (loginWithToken w now tok url s)) = authState s \<or>
   isAuthenticated (authState (snd (loginWithToken w now tok url s)))"
  by (simp add: loginWithToken_def session_ops Let_def split: sum.splits prod.splits)

lemma authState_refresh:
  "authState (refreshTokenPeriodically w now now' s) = authState s \<or>
   authState (refreshTokenPeriodically w now now' s) = defaultAuthState"
  by (simp add: refreshTokenPeriodically_def logout_fields session_ops Let_def
      split: sum.splits option.splits)

lemma authState_register: "authState (snd (register w em pw url s)) = authState s"
  by (simp add: register_def session_ops Let_def split: sum.splits)

lemma authState_rebuildClient: "authState (rebuildClient msg s) = authState s"
  by (simp add: rebuildClient_def session_ops Let_def split: option.splits)

lemma authInvariant_default: "authInvariant defaultAuthState"
  by (simp add: authInvariant_def defaultAuthState_def)

lemma authInvariant_authenticated: "isAuthenticated a \<Longrightarrow> authInvariant a"
  by (simp add: authInvariant_def)

lemma UserProvider_authState:
  assumes "UserProvider hw w st = Inr s"
  shows "\<exists>l. initAuthState hw w st = Inr (authState s, l)"
  using assms
  by (auto simp: UserProvider_def initializeClient_def authState_rebuildClient session_ops Let_def
      split: sum.splits prod.splits if_splits)

lemma initAuthState_invariant:
  assumes "storedAuthState_ok w st" and "initAuthState hw w st = Inr (a, l)"
  shows "authInvariant a"
  using assms
  by (auto simp: initAuthState_def storedAuthState_ok_def authInvariant_default
      split: if_splits option.splits sum.splits)

subsection \<open>Where the time of the last login comes from\<close>

lemma lastLoginTime_UserProvider:
  assumes "UserProvider hw w st = Inr s"
  shows "lastLoginTime s = None"
  using assms
  by (auto simp: UserProvider_def initializeClient_def rebuildClient_def session_ops Let_def
      split: sum.splits prod.splits if_splits option.splits)

lemma lastLoginTime_login:
  "lastLoginTime (snd (login w now em pw url s)) = lastLoginTime s \<or>
   lastLoginTime (snd (login w now em pw url s)) = Some now"
  by (simp add: login_def session_ops Let_def split: sum.splits prod.splits)

lemma lastLoginTime_loginWithToken:
  "lastLoginTime (snd (loginWithToken w now tok url s)) = lastLoginTime s \<or>
   lastLoginTime (snd (loginWithToken w now tok url s)) = Some now"
  by (simp add: loginWithToken_def session_ops Let_def split: sum.splits prod.splits)

lemma lastLoginTime_refresh:
  "lastLoginTime (refreshTokenPeriodically w now now' s) = lastLoginTime s \<or>
   lastLoginTime (refreshTokenPeriodically w now now' s) = Some now'"
  by (simp add: refreshTokenPeriodically_def logout_fields session_ops Let_def
      split: sum.splits option.splits)

lemma lastLoginTime_register: "lastLoginTime (snd (register w em pw url s)) = lastLoginTime s"
  by (simp add: register_def session_ops Let_def split: sum.splits)

lemma lastLoginTime_rebuildClient: "lastLoginTime (rebuildClient msg s) = lastLoginTime s"
  by (simp add: rebuildClient_def session_ops Let_def split: option.splits)

lemma reachable_clock_lastLoginTime:
  assumes "reachable_clock hw w0 st0 s" and "lastLoginTime s = Some T"
  shows "0 < T"
  using assms
proof (induction arbitrary: T rule: reachable_clock.induct)
  case (clock_start s)
  then show ?case by (simp add: lastLoginTime_UserProvider)
next
  case (clock_login s now w em password instanceUrl)
  with lastLoginTime_login [of w now em password instanceUrl s] show ?case by auto
next
  case (clock_loginWithToken s now w token instanceUrl)
  with lastLoginTime_loginWithToken [of w now token instanceUrl s] show ?case by auto
next
  case (clock_logout s w capturedClient capturedAuthenticated)
  then show ?case by (simp add: logout_fields)
next
  case (clock_refresh s now now' w)
  with lastLoginTime_refresh [of w now now' s] show ?case by auto
next
  case (clock_setViewMode s m)
  then show ?case by (simp add: setViewMode_def)
next
  case (clock_register s w em password instanceUrl)
  then show ?case by (simp add: lastLoginTime_register)
next
  case (clock_setPipeline s p)
  then show ?case by (simp add: setPipeline_def)
next
  case (clock_setSelectedModel s m)
  then show ?case by (simp add: setSelectedModel_def setItem_def)
next
  case (clock_initializeClient s)
  then show ?case by (simp add: initializeClient_def lastLoginTime_rebuildClient)
next
  case (clock_handleRouteChange s)
  then show ?case by (simp add: handleRouteChange_def lastLoginTime_rebuildClient)
qed

text \<open>The guard on a login time that is not zero.\<close>

lemma refresh_guard_nonzero:
  assumes "isAuthenticated (authState s)" and "client s = Some c"
    and "lastLoginTime s = Some T" and "T \<noteq> 0"
  shows "(now - T < 300000 \<longrightarrow> refreshTokenPeriodically w now now' s = s) \<and>
         (300000 \<le> now - T \<longrightarrow>
            requests (refreshTokenPeriodically w now now' s) =
              requests s @ CallRefreshAccessToken c #
                (case r2r_refreshAccessToken w c of Inr _ \<Rightarrow> [] | Inl _ \<Rightarrow> [CallLogout c]) \<and>
            (\<forall>tk. r2r_refreshAccessToken w c = Inr tk \<longrightarrow>
               sessionStorage (refreshTokenPeriodically w now now' s) ''accessToken'' =
                 Some (access_token tk) \<and>
               sessionStorage (refreshTokenPeriodically w now now' s) ''refreshToken'' =
                 Some (refresh_token tk) \<and>
               client (refreshTokenPeriodically w now now' s) =
                 Some (setTokens c (access_token tk) (refresh_token tk)) \<and>
               lastLoginTime (refreshTokenPeriodically w now now' s) = Some now'))"
proof (intro conjI impI)
  assume "now - T < 300000"
  with assms show "refreshTokenPeriodically w now now' s = s"
    by (simp add: refreshTokenPeriodically_def refreshTooEarly_def)
next
  assume late: "300000 \<le> now - T"
  with assms show "requests (refreshTokenPeriodically w now now' s) =
      requests s @ CallRefreshAccessToken c #
        (case r2r_refreshAccessToken w c of Inr _ \<Rightarrow> [] | Inl _ \<Rightarrow> [CallLogout c])"
    by (simp add: refreshTokenPeriodically_def refreshTooEarly_def logout_fields session_ops
        Let_def split: sum.splits)
  from assms late show "\<forall>tk. r2r_refreshAccessToken w c = Inr tk \<longrightarrow>
      sessionStorage (refreshTokenPeriodically w now now' s) ''accessToken'' =
        Some (access_token tk) \<and>
      sessionStorage (refreshTokenPeriodically w now now' s) ''refreshToken'' =
        Some (refresh_token tk) \<and>
      client (refreshTokenPeriodically w now now' s) =
        Some (setTokens c (access_token tk) (refresh_token tk)) \<and>
      lastLoginTime (refreshTokenPeriodically w now now' s) = Some now'"
    by (simp add: refreshTokenPeriodically_def refreshTooEarly_def session_ops Let_def)
qed

subsection \<open>The type guard on states the component writes\<close>

lemma role_json_valid: "role_json r \<in> set validRoles"
  by (cases r) (simp_all add: validRoles_def)

lemma isAuthState_AuthState_json: "isAuthState (AuthState_json a)"
  by (cases "userRole a"; cases "email a")
     (auto simp: isAuthState_def AuthState_json_def role_json_valid)

lemma toAuthState_AuthState_json: "toAuthState (AuthState_json a) = a"
proof -
  have "userRole (toAuthState (AuthState_json a)) = userRole a"
  proof (cases "userRole a")
    case None
    then show ?thesis by (simp add: toAuthState_def AuthState_json_def)
  next
    case (Some r)
    then show ?thesis by (cases r) (simp_all add: toAuthState_def AuthState_json_def)
  qed
  moreover have "email (toAuthState (AuthState_json a)) = email a"
    by (cases "email a") (simp_all add: toAuthState_def AuthState_json_def)
  moreover have "isAuthenticated (toAuthState (AuthState_json a)) = isAuthenticated a"
    by (simp add: toAuthState_def AuthState_json_def)
  ultimately show ?thesis by simp
qed

subsection \<open>The example world and sessions, evaluated\<close>

lemma sample_parse_values:
  "JSON_parse sample_world text_admin = Inr (AuthState_json adminAuth)"
  "JSON_parse sample_world text_token = Inr (AuthState_json tokenAuth)"
  "JSON_parse sample_world text_stale = Inr obj_stale"
  "JSON_parse sample_world text_superadmin = Inr obj_superadmin"
  "JSON_parse sample_world text_pipeline = Inr (newPipeline sample_url)"
  "JSON_parse sample_world text_unparsable = Inl syntaxError"
  by (simp_all add: sample_world_def sample_parse_def text_admin_def text_token_def
      text_stale_def text_superadmin_def text_pipeline_def text_unparsable_def quoted_def)

lemma sample_texts_nonempty:
  "text_admin \<noteq> []" "text_stale \<noteq> []" "text_superadmin \<noteq> []" "text_pipeline \<noteq> []"
  "text_unparsable \<noteq> []"
  by (simp_all add: text_admin_def text_stale_def text_superadmin_def text_pipeline_def
      text_unparsable_def)

lemma sample_stringify_values:
  "JSON_stringify sample_world (AuthState_json adminAuth) = text_admin"
  "JSON_stringify sample_world (AuthState_json tokenAuth) = text_token"
  "JSON_stringify sample_world (newPipeline sample_url) = text_pipeline"
  by (simp_all add: sample_world_def sample_stringify_def AuthState_json_def adminAuth_def
      tokenAuth_def newPipeline_def)

lemma sample_backend:
  "r2r_login sample_world c em ''correct horse'' =
     Inr \<lparr>access_token = ''access-1'', refresh_token = ''refresh-1''\<rparr>"
  "r2r_login sample_world c em ''wrong'' = Inl (JsError True (Some 401) False)"
  "r2r_loginWithToken sample_world c ''issued-token'' = Inr ''access-2''"
  "r2r_appSettings sample_world admin_client = Inr ()"
  "r2r_appSettings sample_world token_client = Inl (JsError True (Some 403) False)"
  "r2r_refreshAccessToken sample_world admin_client =
     Inr \<lparr>access_token = ''access-3'', refresh_token = ''refresh-3''\<rparr>"
  "r2r_refreshAccessToken sample_world token_client = Inl (JsError True (Some 401) True)"
  by (simp_all add: sample_world_def admin_client_def token_client_def)

lemma sample_clients:
  "setTokens (new_r2rClient (Some (JStr sample_url))) ''access-1'' ''refresh-1'' = admin_client"
  "setTokens (new_r2rClient (Some (JStr sample_url))) ''access-2'' [] = token_client"
  by (simp_all add: setTokens_def new_r2rClient_def admin_client_def token_client_def)

lemma not_isAuthState_superadmin: "\<not> isAuthState obj_superadmin"
  by (simp add: isAuthState_def obj_superadmin_def validRoles_def)

lemma isAuthState_stale: "isAuthState obj_stale" "toAuthState obj_stale = authState stale_session"
  by (simp_all add: isAuthState_def toAuthState_def obj_stale_def validRoles_def stale_session_def)

lemma UserProvider_fresh: "UserProvider True sample_world Map.empty = Inr fresh_session"
  by (simp add: UserProvider_def initPipeline_def initAuthState_def initSelectedModel_def
      initializeClient_def rebuildClient_def defaultAuthState_def fresh_session_def session_ops)

lemma UserProvider_stale: "UserProvider True sample_world stale_store = Inr stale_session"
  by (simp add: UserProvider_def initPipeline_def initAuthState_def initSelectedModel_def
      initializeClient_def rebuildClient_def sample_parse_values sample_texts_nonempty
      isAuthState_stale stale_store_def session_ops)
     (simp add: stale_session_def stale_store_def)

lemma admin_session_storage:
  "sessionStorage admin_session =
     [''selectedModel'' \<mapsto> [], ''accessToken'' \<mapsto> ''access-1'',
      ''refreshToken'' \<mapsto> ''refresh-1'', ''authState'' \<mapsto> text_admin,
      ''pipeline'' \<mapsto> text_pipeline]"
proof -
  have "AuthState_json \<lparr>isAuthenticated = True, email = Some ''admin@example.com'',
      userRole = Some Admin\<rparr> = AuthState_json adminAuth"
    by (simp add: adminAuth_def)
  then show ?thesis
    by (simp add: admin_session_def login_def sample_backend sample_clients checkUserRole_def
        session_ops fresh_session_def sample_stringify_values Let_def)
qed

lemma token_session_storage:
  "sessionStorage token_session =
     [''selectedModel'' \<mapsto> [], ''accessToken'' \<mapsto> ''access-2'',
      ''authState'' \<mapsto> text_token, ''pipeline'' \<mapsto> text_pipeline]"
proof -
  have "AuthState_json \<lparr>isAuthenticated = True, email = Some [], userRole = Some User\<rparr> =
      AuthState_json tokenAuth"
    by (simp add: tokenAuth_def)
  then show ?thesis
    by (simp add: token_session_def loginWithToken_def sample_backend sample_clients
        checkUserRole_def session_ops fresh_session_def sample_stringify_values Let_def)
qed

lemma UserProvider_reload: "UserProvider True sample_world reload_store = Inr reload_session"
proof -
  have "js_get (newPipeline sample_url) ''deploymentUrl'' = Some (JStr sample_url)"
    by (simp add: newPipeline_def)
  then show ?thesis
    by (simp add: UserProvider_def initPipeline_def initAuthState_def initSelectedModel_def
        initializeClient_def rebuildClient_def reload_store_def admin_session_storage
        sample_parse_values sample_texts_nonempty isAuthState_AuthState_json
        toAuthState_AuthState_json session_ops sample_clients Let_def
        reload_session_def)
      (simp add: adminAuth_def newPipeline_def fun_upd_twist)
qed

lemma admin_session_fields:
  "authState admin_session = adminAuth"
  "client admin_session = Some admin_client"
  "lastLoginTime admin_session = Some 1000"
  "requests admin_session =
     [CallLogin (new_r2rClient (Some (JStr sample_url))) ''admin@example.com'' ''correct horse'',
      CallAppSettings admin_client]"
  "sessionStorage admin_session ''selectedModel'' = Some []"
  by (simp_all add: admin_session_def login_def sample_backend sample_clients checkUserRole_def
      session_ops fresh_session_def adminAuth_def Let_def)

lemma token_session_fields:
  "authState token_session = \<lparr>isAuthenticated = True, email = Some [], userRole = Some User\<rparr>"
  "client token_session = Some token_client"
  "lastLoginTime token_session = Some 1000"
  "pipeline token_session = newPipeline sample_url"
  "sessionStorage token_session ''accessToken'' = Some ''access-2''"
  "sessionStorage token_session ''refreshToken'' = None"
  by (simp_all add: token_session_def loginWithToken_def sample_backend sample_clients
      checkUserRole_def session_ops fresh_session_def Let_def)

lemma model_session_fields:
  "isAuthenticated (authState model_session)"
  "sessionStorage model_session ''selectedModel'' = Some ''gpt-4o''"
  by (simp_all add: model_session_def setSelectedModel_def setItem_def admin_session_fields
      adminAuth_def)

section \<open>The claims\<close>

subsection \<open>C1: the invariant of the authentication state\<close>

text \<open>
  C1, as amended. The mount returns whatever stored value passes the type guard, and the
  guard checks types only; so the invariant (a state that is not authenticated has no
  email and no role) is kept by every operation, and holds in every reachable session
  provided the \<open>authState\<close> entry found in the storage at the mount, where it parses and
  passes the guard, satisfies the invariant itself.
\<close>

theorem reachable_authInvariant:
  assumes "storedAuthState_ok w0 st0" and "reachable hasWindow w0 st0 s"
  shows "authInvariant (authState s)"
  using assms(2)
proof (induction rule: reachable.induct)
  case (start s)
  from UserProvider_authState [OF start] obtain l
    where "initAuthState hasWindow w0 st0 = Inr (authState s, l)" ..
  with assms(1) show ?case by (rule initAuthState_invariant)
next
  case (do_login s w now em password instanceUrl)
  with authState_login [of w now em password instanceUrl s] show ?case
    by (auto intro: authInvariant_authenticated)
next
  case (do_loginWithToken s w now token instanceUrl)
  with authState_loginWithToken [of w now token instanceUrl s] show ?case
    by (auto intro: authInvariant_authenticated)
next
  case (do_logout s w capturedClient capturedAuthenticated)
  show ?case by (simp add: logout_fields authInvariant_default)
next
  case (do_refresh s w now now')
  with authState_refresh [of w now now' s] show ?case
    by (auto simp: authInvariant_default)
next
  case (do_setViewMode s m)
  then show ?case by (simp add: setViewMode_def)
next
  case (do_register s w em password instanceUrl)
  then show ?case by (simp add: authState_register)
next
  case (do_setPipeline s p)
  then show ?case by (simp add: setPipeline_def)
next
  case (do_setSelectedModel s m)
  then show ?case by (simp add: setSelectedModel_def setItem_def)
next
  case (do_initializeClient s)
  then show ?case by (simp add: initializeClient_def authState_rebuildClient)
next
  case (do_handleRouteChange s)
  then show ?case by (simp add: handleRouteChange_def authState_rebuildClient)
qed

text \<open>
  The amended C1 at a page reload after a password login: the stored state is the one of
  an authenticated administrator, the mount restores it, and a refresh follows.
\<close>

theorem reachable_authInvariant_witness:
  "storedAuthState_ok sample_world reload_store \<and>
   reachable True sample_world reload_store
     (refreshTokenPeriodically sample_world 1001 1002 reload_session) \<and>
   authInvariant (authState (refreshTokenPeriodically sample_world 1001 1002 reload_session))"
proof -
  have ok: "storedAuthState_ok sample_world reload_store"
    by (simp add: storedAuthState_ok_def reload_store_def admin_session_storage
        sample_parse_values toAuthState_AuthState_json authInvariant_def adminAuth_def)
  have r: "reachable True sample_world reload_store
      (refreshTokenPeriodically sample_world 1001 1002 reload_session)"
    by (rule reachable.do_refresh [OF reachable.start [OF UserProvider_reload]])
  from reachable_authInvariant [OF ok r] ok r show ?thesis by simp
qed

text \<open>
  C1 as stated fails at the mount: a stored state with \<open>isAuthenticated\<close> false, an email
  and the role admin passes \<open>isAuthState\<close> and becomes the session's state.
\<close>

theorem restored_state_breaks_invariant_counterexample:
  "isAuthState obj_stale \<and>
   reachable True sample_world stale_store stale_session \<and>
   \<not> isAuthenticated (authState stale_session) \<and>
   email (authState stale_session) = Some ''admin@example.com'' \<and>
   userRole (authState stale_session) = Some Admin \<and>
   \<not> authInvariant (authState stale_session)"
  using reachable.start [OF UserProvider_stale] isAuthState_stale(1)
  by (simp add: stale_session_def authInvariant_def)

subsection \<open>C2: a failed refresh logs out\<close>

text \<open>
  C2. When \<open>refreshTokenPeriodically\<close> runs on an authenticated session with a client,
  the five-minute guard does not apply, and \<open>refreshAccessToken\<close> fails with any error,
  the session ends logged out: the authentication state is the default one, client and
  pipeline are cleared, the four session keys are absent from the storage, and the
  backend was called exactly twice, one refresh (no retry) and then the logout.
\<close>

theorem refresh_failure_forces_logout:
  assumes "isAuthenticated (authState s)" and "client s = Some c"
    and "\<not> refreshTooEarly (lastLoginTime s) now"
    and "r2r_refreshAccessToken w c = Inl error"
  shows "authState (refreshTokenPeriodically w now now' s) = defaultAuthState \<and>
         client (refreshTokenPeriodically w now now' s) = None \<and>
         pipeline (refreshTokenPeriodically w now now' s) = JNull \<and>
         sessionStorage (refreshTokenPeriodically w now now' s) ''accessToken'' = None \<and>
         sessionStorage (refreshTokenPeriodically w now now' s) ''refreshToken'' = None \<and>
         sessionStorage (refreshTokenPeriodically w now now' s) ''authState'' = None \<and>
         sessionStorage (refreshTokenPeriodically w now now' s) ''pipeline'' = None \<and>
         requests (refreshTokenPeriodically w now now' s) =
           requests s @ [CallRefreshAccessToken c, CallLogout c]"
proof -
  define s3 where "s3 = console_log (Error ''Failed to refresh token:'')
    (request (CallRefreshAccessToken c) (console_log (Log ''Attempting to refresh token'') s))"
  define s4 where "s4 = console_log (Error ''Failed to re-authenticate:'')
    (console_log (Log ''Authentication error, attempting to re-login'') s3)"
  have r: "refreshTokenPeriodically w now now' s =
      (if instanceofAuthenticationError error then logout w (Some c) True s4
       else logout w (Some c) True s3)"
    using assms by (simp add: refreshTokenPeriodically_def s3_def s4_def Let_def)
  have f3: "requests s3 = requests s @ [CallRefreshAccessToken c]"
    by (simp add: s3_def session_ops)
  have f4: "requests s4 = requests s @ [CallRefreshAccessToken c]"
    using f3 by (simp add: s4_def session_ops)
  show ?thesis
  proof (cases "instanceofAuthenticationError error")
    case True
    with r f4 show ?thesis by (simp add: logout_fields)
  next
    case False
    with r f3 show ?thesis by (simp add: logout_fields)
  qed
qed

text \<open>C2 at the session of a token login, whose client the example backend refuses to refresh.\<close>

theorem refresh_failure_forces_logout_witness:
  "isAuthenticated (authState token_session) \<and> client token_session = Some token_client \<and>
   \<not> refreshTooEarly (lastLoginTime token_session) 400000 \<and>
   r2r_refreshAccessToken sample_world token_client = Inl (JsError True (Some 401) True) \<and>
   authState (refreshTokenPeriodically sample_world 400000 400100 token_session) =
     defaultAuthState \<and>
   sessionStorage (refreshTokenPeriodically sample_world 400000 400100 token_session)
     ''accessToken'' = None \<and>
   requests (refreshTokenPeriodically sample_world 400000 400100 token_session) =
     requests token_session @ [CallRefreshAccessToken token_client, CallLogout token_client]"
proof -
  have h1: "isAuthenticated (authState token_session)"
    by (simp add: token_session_fields)
  have h2: "client token_session = Some token_client"
    by (rule token_session_fields)
  have h3: "\<not> refreshTooEarly (lastLoginTime token_session) 400000"
    by (simp add: token_session_fields refreshTooEarly_def)
  have h4: "r2r_refreshAccessToken sample_world token_client = Inl (JsError True (Some 401) True)"
    by (rule sample_backend)
  from refresh_failure_forces_logout [OF h1 h2 h3 h4, of 400100] h1 h2 h3 h4
  show ?thesis by simp
qed

subsection \<open>C3: the role comes from the probe\<close>

text \<open>
  C3. When the client's login succeeds, \<open>login\<close> resolves to \<open>{success: true, userRole}\<close>
  and sets the authentication state to \<open>{isAuthenticated: true, email, userRole}\<close>, where
  the role is admin if the \<open>appSettings\<close> probe on the new client succeeds and user if it
  fails with any error, the 403 of a missing permission or another; a failed probe never
  makes the login fail.
\<close>

theorem login_role_from_probe:
  assumes "r2r_login w (new_r2rClient (Some (JStr instanceUrl))) em password = Inr tk"
    and "c = setTokens (new_r2rClient (Some (JStr instanceUrl)))
               (access_token tk) (refresh_token tk)"
    and "r = (case r2r_appSettings w c of Inr _ \<Rightarrow> Admin | Inl _ \<Rightarrow> User)"
  shows "fst (login w now em password instanceUrl s) = Inr \<lparr>success = True, resultRole = r\<rparr> \<and>
         authState (snd (login w now em password instanceUrl s)) =
           \<lparr>isAuthenticated = True, email = Some em, userRole = Some r\<rparr>"
  using assms
  by (simp add: login_def checkUserRole_def session_ops Let_def split: sum.splits prod.splits)

text \<open>C3 at the password login of the example: the probe succeeds and the role is admin.\<close>

theorem login_role_from_probe_witness:
  "r2r_login sample_world (new_r2rClient (Some (JStr sample_url))) ''admin@example.com''
     ''correct horse'' = Inr \<lparr>access_token = ''access-1'', refresh_token = ''refresh-1''\<rparr> \<and>
   r2r_appSettings sample_world admin_client = Inr () \<and>
   fst (login sample_world 1000 ''admin@example.com'' ''correct horse'' sample_url fresh_session) =
     Inr \<lparr>success = True, resultRole = Admin\<rparr> \<and>
   authState (snd (login sample_world 1000 ''admin@example.com'' ''correct horse'' sample_url
     fresh_session)) =
     \<lparr>isAuthenticated = True, email = Some ''admin@example.com'', userRole = Some Admin\<rparr>"
proof -
  have h1: "r2r_login sample_world (new_r2rClient (Some (JStr sample_url))) ''admin@example.com''
     ''correct horse'' = Inr \<lparr>access_token = ''access-1'', refresh_token = ''refresh-1''\<rparr>"
    by (rule sample_backend)
  have h2: "admin_client = setTokens (new_r2rClient (Some (JStr sample_url)))
      (access_token \<lparr>access_token = ''access-1'', refresh_token = ''refresh-1''\<rparr>)
      (refresh_token \<lparr>access_token = ''access-1'', refresh_token = ''refresh-1''\<rparr>)"
    by (simp add: sample_clients)
  have h3: "Admin = (case r2r_appSettings sample_world admin_client of
      Inr _ \<Rightarrow> Admin | Inl _ \<Rightarrow> User)"
    by (simp add: sample_backend)
  from login_role_from_probe [OF h1 h2 h3, of 1000 fresh_session] h1 sample_backend(4)
  show ?thesis by simp
qed

subsection \<open>C4: a failed login changes nothing, an accepted one authenticates\<close>

text \<open>
  C4. When the client's login fails, \<open>login\<close> throws that error and leaves the session
  as it was, apart from the two console lines and the record of the call: the
  authentication state, the client and the storage keep their values, so a session that
  was not authenticated is still not authenticated and no client is installed. When the
  backend accepts the login, the session is authenticated and has a client.
\<close>

theorem login_failure_and_success:
  "(r2r_login w (new_r2rClient (Some (JStr instanceUrl))) em password = Inl error \<longrightarrow>
      login w now em password instanceUrl s =
        (Inl error,
         s\<lparr>console := console s @
              [Log (''Attempting login for '' @ em @ '' to '' @ instanceUrl),
               Error ''Login failed:''],
           requests := requests s @
              [CallLogin (new_r2rClient (Some (JStr instanceUrl))) em password]\<rparr>) \<and>
      authState (snd (login w now em password instanceUrl s)) = authState s \<and>
      client (snd (login w now em password instanceUrl s)) = client s \<and>
      sessionStorage (snd (login w now em password instanceUrl s)) = sessionStorage s \<and>
      (\<not> isAuthenticated (authState s) \<longrightarrow>
         \<not> isAuthenticated (authState (snd (login w now em password instanceUrl s))))) \<and>
   (r2r_login w (new_r2rClient (Some (JStr instanceUrl))) em password = Inr tk \<longrightarrow>
      isAuthenticated (authState (snd (login w now em password instanceUrl s))) \<and>
      client (snd (login w now em password instanceUrl s)) \<noteq> None)"
proof -
  let ?c0 = "new_r2rClient (Some (JStr instanceUrl))"
  let ?out = "login w now em password instanceUrl s"
  have failure: "?out =
      (Inl error,
       s\<lparr>console := console s @
            [Log (''Attempting login for '' @ em @ '' to '' @ instanceUrl),
             Error ''Login failed:''],
         requests := requests s @ [CallLogin ?c0 em password]\<rparr>)"
    if "r2r_login w ?c0 em password = Inl error"
    using that by (simp add: login_def session_ops Let_def)
  have success: "isAuthenticated (authState (snd ?out)) \<and> client (snd ?out) \<noteq> None"
    if "r2r_login w ?c0 em password = Inr tk"
    using that
    by (simp add: login_def checkUserRole_def session_ops Let_def split: sum.splits prod.splits)
  show ?thesis
  proof (intro conjI impI)
    assume fails: "r2r_login w ?c0 em password = Inl error"
    from failure [OF fails] show "?out =
      (Inl error,
       s\<lparr>console := console s @
            [Log (''Attempting login for '' @ em @ '' to '' @ instanceUrl),
             Error ''Login failed:''],
         requests := requests s @ [CallLogin ?c0 em password]\<rparr>)" .
    from failure [OF fails] show "authState (snd ?out) = authState s" by simp
    from failure [OF fails] show "client (snd ?out) = client s" by simp
    from failure [OF fails] show "sessionStorage (snd ?out) = sessionStorage s" by simp
    assume "\<not> isAuthenticated (authState s)"
    with failure [OF fails] show "\<not> isAuthenticated (authState (snd ?out))" by simp
  next
    assume accepted: "r2r_login w ?c0 em password = Inr tk"
    from success [OF accepted] show "isAuthenticated (authState (snd ?out))" ..
    from success [OF accepted] show "client (snd ?out) \<noteq> None" ..
  qed
qed

text \<open>C4 at a wrong and at the right password, from the session of a fresh mount.\<close>

theorem login_failure_and_success_witness:
  "r2r_login sample_world (new_r2rClient (Some (JStr sample_url))) ''admin@example.com'' ''wrong'' =
     Inl (JsError True (Some 401) False) \<and>
   fst (login sample_world 1000 ''admin@example.com'' ''wrong'' sample_url fresh_session) =
     Inl (JsError True (Some 401) False) \<and>
   authState (snd (login sample_world 1000 ''admin@example.com'' ''wrong'' sample_url
     fresh_session)) = authState fresh_session \<and>
   client (snd (login sample_world 1000 ''admin@example.com'' ''wrong'' sample_url
     fresh_session)) = None \<and>
   r2r_login sample_world (new_r2rClient (Some (JStr sample_url))) ''admin@example.com''
     ''correct horse'' = Inr \<lparr>access_token = ''access-1'', refresh_token = ''refresh-1''\<rparr> \<and>
   isAuthenticated (authState (snd (login sample_world 1000 ''admin@example.com''
     ''correct horse'' sample_url fresh_session))) \<and>
   client (snd (login sample_world 1000 ''admin@example.com'' ''correct horse'' sample_url
     fresh_session)) \<noteq> None"
proof -
  have bad: "r2r_login sample_world (new_r2rClient (Some (JStr sample_url))) ''admin@example.com''
      ''wrong'' = Inl (JsError True (Some 401) False)"
    by (rule sample_backend)
  have good: "r2r_login sample_world (new_r2rClient (Some (JStr sample_url)))
      ''admin@example.com'' ''correct horse'' =
      Inr \<lparr>access_token = ''access-1'', refresh_token = ''refresh-1''\<rparr>"
    by (rule sample_backend)
  have none: "client fresh_session = None"
    by (simp add: fresh_session_def)
  from login_failure_and_success [of sample_world sample_url "''admin@example.com''" "''wrong''"
      "JsError True (Some 401) False" 1000 fresh_session, THEN conjunct1, rule_format, OF bad]
    login_failure_and_success [of sample_world sample_url "''admin@example.com''"
      "''correct horse''" _ 1000 fresh_session
      "\<lparr>access_token = ''access-1'', refresh_token = ''refresh-1''\<rparr>",
      THEN conjunct2, rule_format, OF good]
    bad good none
  show ?thesis by simp
qed

subsection \<open>C5: logout\<close>

text \<open>
  C5, as amended. From any session, whatever client and flag the callback has captured
  and whatever the backend answers, \<open>logout\<close> ends with the default authentication state,
  no client and no pipeline, and with the keys \<open>authState\<close>, \<open>pipeline\<close>, \<open>accessToken\<close>
  and \<open>refreshToken\<close> absent from the storage; the key \<open>selectedModel\<close> is left as it
  was. A second logout, by the same function or by the one of a later render, ends in the
  session of the first: the hooks and the storage are equal, while the backend is called
  again when the function that runs has captured a client and the flag. A failing backend
  logout ends in the session of a successful one, the console lines apart.
\<close>

theorem logout_resets_and_is_idempotent:
  "authState (logout w cl b s) = defaultAuthState \<and>
   client (logout w cl b s) = None \<and>
   pipeline (logout w cl b s) = JNull \<and>
   sessionStorage (logout w cl b s) ''authState'' = None \<and>
   sessionStorage (logout w cl b s) ''pipeline'' = None \<and>
   sessionStorage (logout w cl b s) ''accessToken'' = None \<and>
   sessionStorage (logout w cl b s) ''refreshToken'' = None \<and>
   sessionStorage (logout w cl b s) ''selectedModel'' = sessionStorage s ''selectedModel'' \<and>
   (logout w' cl' b' (logout w cl b s))\<lparr>console := [], requests := []\<rparr> =
     (logout w cl b s)\<lparr>console := [], requests := []\<rparr> \<and>
   requests (logout w' cl' b' (logout w cl b s)) =
     requests (logout w cl b s) @
       (case cl' of None \<Rightarrow> [] | Some c \<Rightarrow> if b' then [CallLogout c] else []) \<and>
   (logout w' cl b s)\<lparr>console := []\<rparr> = (logout w cl b s)\<lparr>console := []\<rparr>"
proof -
  have twice: "(logout w' cl' b' (logout w cl b s))\<lparr>console := [], requests := []\<rparr> =
      (logout w cl b s)\<lparr>console := [], requests := []\<rparr>"
    by (rule session.equality) (simp_all add: logout_fields)
  have same: "(logout w' cl b s)\<lparr>console := []\<rparr> = (logout w cl b s)\<lparr>console := []\<rparr>"
    by (rule session.equality) (simp_all add: logout_fields)
  from twice same show ?thesis by (simp add: logout_fields)
qed

text \<open>
  The amended C5 at the session of the password login, with the function of that render
  called twice: the second call ends in the same session and calls the backend again.
\<close>

theorem logout_resets_and_is_idempotent_witness:
  "client admin_session = Some admin_client \<and> isAuthenticated (authState admin_session) \<and>
   authState (logout sample_world (Some admin_client) True admin_session) = defaultAuthState \<and>
   sessionStorage (logout sample_world (Some admin_client) True admin_session) ''accessToken'' =
     None \<and>
   (logout sample_world (Some admin_client) True
      (logout sample_world (Some admin_client) True admin_session))
        \<lparr>console := [], requests := []\<rparr> =
     (logout sample_world (Some admin_client) True admin_session)
        \<lparr>console := [], requests := []\<rparr> \<and>
   requests (logout sample_world (Some admin_client) True
      (logout sample_world (Some admin_client) True admin_session)) =
     requests (logout sample_world (Some admin_client) True admin_session) @
       [CallLogout admin_client]"
  using logout_resets_and_is_idempotent [of sample_world "Some admin_client" True admin_session
      sample_world "Some admin_client" True]
  by (simp add: admin_session_fields adminAuth_def)

text \<open>
  C5 as stated fails on \<open>selectedModel\<close>: the model selected during the session is still
  in the storage after a logout.
\<close>

theorem logout_keeps_selectedModel_counterexample:
  "sessionStorage model_session ''selectedModel'' = Some ''gpt-4o'' \<and>
   sessionStorage
     (logout sample_world (client model_session) (isAuthenticated (authState model_session))
        model_session) ''selectedModel'' = Some ''gpt-4o''"
  by (simp add: logout_fields model_session_fields)

subsection \<open>C6: restoring the authentication state\<close>

text \<open>
  C6, as amended. In the browser, a state of type \<open>AuthState\<close> that was persisted is
  restored as an equal value, given that \<open>JSON.parse\<close> returns the object that
  \<open>JSON.stringify\<close> was given and that the stored text is not empty. For every stored
  text that is not empty and that \<open>JSON.parse\<close> accepts, if the parsed value fails the
  shape check, the initializer returns the default state and logs the warning, without
  throwing.
\<close>

theorem restore_authState:
  "(JSON_parse w (JSON_stringify w (AuthState_json a)) = Inr (AuthState_json a) \<and>
    JSON_stringify w (AuthState_json a) \<noteq> [] \<longrightarrow>
      initAuthState True w (st(''authState'' \<mapsto> JSON_stringify w (AuthState_json a))) =
        Inr (a, [])) \<and>
   (st ''authState'' = Some t \<and> t \<noteq> [] \<and> JSON_parse w t = Inr parsed \<and>
    \<not> isAuthState parsed \<longrightarrow>
      initAuthState True w st =
        Inr (defaultAuthState,
             [Warn ''Invalid authState found in sessionStorage. Resetting to default.'']))"
proof (intro conjI impI)
  let ?stored = "JSON_stringify w (AuthState_json a)"
  assume "JSON_parse w ?stored = Inr (AuthState_json a) \<and> ?stored \<noteq> []"
  then have "initAuthState True w (st(''authState'' \<mapsto> ?stored)) =
      Inr (toAuthState (AuthState_json a), [])"
    by (simp add: initAuthState_def isAuthState_AuthState_json)
  then show "initAuthState True w (st(''authState'' \<mapsto> ?stored)) = Inr (a, [])"
    by (simp add: toAuthState_AuthState_json)
next
  assume "st ''authState'' = Some t \<and> t \<noteq> [] \<and> JSON_parse w t = Inr parsed \<and>
    \<not> isAuthState parsed"
  then show "initAuthState True w st =
      Inr (defaultAuthState,
           [Warn ''Invalid authState found in sessionStorage. Resetting to default.''])"
    by (simp add: initAuthState_def)
qed

text \<open>The amended C6 at the state of an administrator and at a stored role \<open>superadmin\<close>.\<close>

theorem restore_authState_witness:
  "initAuthState True sample_world [''authState'' \<mapsto> text_admin] = Inr (adminAuth, []) \<and>
   \<not> isAuthState obj_superadmin \<and>
   initAuthState True sample_world [''authState'' \<mapsto> text_superadmin] =
     Inr (defaultAuthState,
          [Warn ''Invalid authState found in sessionStorage. Resetting to default.''])"
proof -
  have rt: "JSON_parse sample_world (JSON_stringify sample_world (AuthState_json adminAuth)) =
      Inr (AuthState_json adminAuth) \<and>
      JSON_stringify sample_world (AuthState_json adminAuth) \<noteq> []"
    by (simp add: sample_stringify_values(1) sample_parse_values sample_texts_nonempty)
  have a: "initAuthState True sample_world [''authState'' \<mapsto> text_admin] = Inr (adminAuth, [])"
    using restore_authState [of sample_world adminAuth Map.empty, THEN conjunct1, rule_format, OF rt]
    by (simp add: sample_stringify_values(1))
  have sup: "[''authState'' \<mapsto> text_superadmin] ''authState'' = Some text_superadmin \<and>
      text_superadmin \<noteq> [] \<and> JSON_parse sample_world text_superadmin = Inr obj_superadmin \<and>
      \<not> isAuthState obj_superadmin"
    by (simp add: sample_parse_values sample_texts_nonempty not_isAuthState_superadmin)
  have b: "initAuthState True sample_world [''authState'' \<mapsto> text_superadmin] =
     Inr (defaultAuthState,
          [Warn ''Invalid authState found in sessionStorage. Resetting to default.''])"
    by (rule restore_authState [where w = sample_world and t = text_superadmin
          and st = "[''authState'' \<mapsto> text_superadmin]" and parsed = obj_superadmin,
          THEN conjunct2, rule_format, OF sup])
  from a b not_isAuthState_superadmin show ?thesis by simp
qed

text \<open>
  C6 as stated fails on a stored text that is not JSON: \<open>JSON.parse\<close> throws, nothing
  catches it, and the initializer and with it the mount throw.
\<close>

theorem restore_unparsable_throws_counterexample:
  "JSON_parse sample_world text_unparsable = Inl syntaxError \<and>
   initAuthState True sample_world [''authState'' \<mapsto> text_unparsable] = Inl syntaxError \<and>
   UserProvider True sample_world [''authState'' \<mapsto> text_unparsable] = Inl syntaxError"
  by (simp add: UserProvider_def initPipeline_def initAuthState_def sample_parse_values
      sample_texts_nonempty)

subsection \<open>C7: the five-minute guard\<close>

text \<open>
  C7. In a run whose clock is past the epoch, on an authenticated session with a client
  and a \<open>lastLoginTime\<close> \<open>T\<close> that is not null: when less than 300000 ms have passed since
  \<open>T\<close> the refresh is skipped and the session, storage and traces included, is unchanged;
  when at least 300000 ms have passed, \<open>refreshAccessToken\<close> is called once, and when it
  succeeds both new tokens are in the storage and on the client and \<open>lastLoginTime\<close> is
  the time read after the answer. \<open>lastLoginTime\<close> is written from \<open>Date.now()\<close> only, so
  in such a run a time that is not null is positive, and the truthiness test of the guard
  is the test for null.
\<close>

theorem refresh_five_minute_guard:
  assumes "reachable_clock hasWindow w0 st0 s"
    and "isAuthenticated (authState s)" and "client s = Some c"
    and "lastLoginTime s = Some T"
  shows "(now - T < 300000 \<longrightarrow> refreshTokenPeriodically w now now' s = s) \<and>
         (300000 \<le> now - T \<longrightarrow>
            requests (refreshTokenPeriodically w now now' s) =
              requests s @ CallRefreshAccessToken c #
                (case r2r_refreshAccessToken w c of Inr _ \<Rightarrow> [] | Inl _ \<Rightarrow> [CallLogout c]) \<and>
            (\<forall>tk. r2r_refreshAccessToken w c = Inr tk \<longrightarrow>
               sessionStorage (refreshTokenPeriodically w now now' s) ''accessToken'' =
                 Some (access_token tk) \<and>
               sessionStorage (refreshTokenPeriodically w now now' s) ''refreshToken'' =
                 Some (refresh_token tk) \<and>
               client (refreshTokenPeriodically w now now' s) =
                 Some (setTokens c (access_token tk) (refresh_token tk)) \<and>
               lastLoginTime (refreshTokenPeriodically w now now' s) = Some now'))"
proof -
  from assms(1,4) have "0 < T" by (rule reachable_clock_lastLoginTime)
  then have "T \<noteq> 0" by simp
  with assms(2-4) show ?thesis by (rule refresh_guard_nonzero)
qed

text \<open>
  C7 on the session of a login at time 1000 after a mount on an empty storage, at the
  times 200000 and 400000.
\<close>

theorem refresh_five_minute_guard_witness:
  "reachable_clock True sample_world Map.empty admin_session \<and>
   isAuthenticated (authState admin_session) \<and> client admin_session = Some admin_client \<and>
   lastLoginTime admin_session = Some 1000 \<and>
   (200000::int) - 1000 < 300000 \<and>
   refreshTokenPeriodically sample_world 200000 200100 admin_session = admin_session \<and>
   (300000::int) \<le> 400000 - 1000 \<and>
   r2r_refreshAccessToken sample_world admin_client =
     Inr \<lparr>access_token = ''access-3'', refresh_token = ''refresh-3''\<rparr> \<and>
   requests (refreshTokenPeriodically sample_world 400000 400100 admin_session) =
     requests admin_session @ [CallRefreshAccessToken admin_client] \<and>
   sessionStorage (refreshTokenPeriodically sample_world 400000 400100 admin_session)
     ''accessToken'' = Some ''access-3'' \<and>
   lastLoginTime (refreshTokenPeriodically sample_world 400000 400100 admin_session) =
     Some 400100"
proof -
  have h0: "reachable_clock True sample_world Map.empty admin_session"
    unfolding admin_session_def
    by (rule reachable_clock.clock_login [OF reachable_clock.clock_start [OF UserProvider_fresh]])
      simp
  have h1: "isAuthenticated (authState admin_session)"
    by (simp add: admin_session_fields adminAuth_def)
  have h2: "client admin_session = Some admin_client"
    and h3: "lastLoginTime admin_session = Some 1000"
    by (rule admin_session_fields)+
  have ok: "r2r_refreshAccessToken sample_world admin_client =
      Inr \<lparr>access_token = ''access-3'', refresh_token = ''refresh-3''\<rparr>"
    by (rule sample_backend)
  from refresh_five_minute_guard [OF h0 h1 h2 h3, of 200000 sample_world 200100]
    refresh_five_minute_guard [OF h0 h1 h2 h3, of 400000 sample_world 400100]
    h0 h1 h2 h3 ok
  show ?thesis by simp
qed

subsection \<open>C8: login with a token\<close>

text \<open>
  C8, as amended. When the token exchange succeeds, \<open>loginWithToken\<close> resolves to
  \<open>{success: true, userRole}\<close> with the role of the same probe as \<open>login\<close>, persists the
  access token only (the \<open>refreshToken\<close> key of the storage keeps whatever it held),
  installs the new client with that access token and an empty refresh token, sets and
  persists the authentication state \<open>{isAuthenticated: true, email: "", userRole}\<close>,
  records \<open>lastLoginTime\<close>, and sets and persists the deployment.
\<close>

theorem loginWithToken_contract:
  assumes "r2r_loginWithToken w (new_r2rClient (Some (JStr instanceUrl))) token = Inr access"
    and "c = setTokens (new_r2rClient (Some (JStr instanceUrl))) access []"
    and "r = (case r2r_appSettings w c of Inr _ \<Rightarrow> Admin | Inl _ \<Rightarrow> User)"
    and "a = \<lparr>isAuthenticated = True, email = Some [], userRole = Some r\<rparr>"
    and "s' = snd (loginWithToken w now token instanceUrl s)"
  shows "fst (loginWithToken w now token instanceUrl s) =
           Inr \<lparr>success = True, resultRole = r\<rparr> \<and>
         sessionStorage s' ''accessToken'' = Some access \<and>
         sessionStorage s' ''refreshToken'' = sessionStorage s ''refreshToken'' \<and>
         client s' = Some c \<and>
         authState s' = a \<and>
         sessionStorage s' ''authState'' = Some (JSON_stringify w (AuthState_json a)) \<and>
         lastLoginTime s' = Some now \<and>
         pipeline s' = newPipeline instanceUrl \<and>
         sessionStorage s' ''pipeline'' = Some (JSON_stringify w (newPipeline instanceUrl))"
  using assms
  by (simp add: loginWithToken_def checkUserRole_def session_ops Let_def
      split: sum.splits prod.splits)

text \<open>The amended C8 at the token login of the example, whose probe is refused with 403.\<close>

theorem loginWithToken_contract_witness:
  "r2r_loginWithToken sample_world (new_r2rClient (Some (JStr sample_url))) ''issued-token'' =
     Inr ''access-2'' \<and>
   fst (loginWithToken sample_world 1000 ''issued-token'' sample_url fresh_session) =
     Inr \<lparr>success = True, resultRole = User\<rparr> \<and>
   sessionStorage token_session ''accessToken'' = Some ''access-2'' \<and>
   client token_session = Some token_client \<and>
   authState token_session = \<lparr>isAuthenticated = True, email = Some [], userRole = Some User\<rparr> \<and>
   lastLoginTime token_session = Some 1000 \<and>
   pipeline token_session = newPipeline sample_url"
proof -
  have h1: "r2r_loginWithToken sample_world (new_r2rClient (Some (JStr sample_url)))
      ''issued-token'' = Inr ''access-2''"
    by (rule sample_backend)
  have h2: "token_client = setTokens (new_r2rClient (Some (JStr sample_url))) ''access-2'' []"
    by (simp add: sample_clients)
  have h3: "User = (case r2r_appSettings sample_world token_client of
      Inr _ \<Rightarrow> Admin | Inl _ \<Rightarrow> User)"
    by (simp add: sample_backend)
  from loginWithToken_contract [OF h1 h2 h3 refl token_session_def] h1
  show ?thesis by simp
qed

text \<open>
  C8 as stated fails on the refresh token: after an accepted token login on a storage
  without one, the storage still has no \<open>refreshToken\<close>.
\<close>

theorem loginWithToken_no_refreshToken_counterexample:
  "r2r_loginWithToken sample_world (new_r2rClient (Some (JStr sample_url))) ''issued-token'' =
     Inr ''access-2'' \<and>
   sessionStorage token_session ''accessToken'' = Some ''access-2'' \<and>
   sessionStorage token_session ''refreshToken'' = None"
  by (simp add: token_session_fields sample_backend)

subsection \<open>C9: the effective role\<close>

text \<open>
  C9, as amended. The effective role of the navigation bar equals the formula of the
  specification, \<open>viewMode == user ? "user" : authState.userRole\<close>, whenever the user
  role is not null; when the user role is null the effective role is \<open>"user"\<close> in either
  view mode.
\<close>

theorem effectiveRole_formula:
  "(userRole a \<noteq> None \<longrightarrow> Some (effectiveRole vm a) = effectiveRole_spec vm a) \<and>
   (userRole a = None \<longrightarrow> effectiveRole vm a = User)"
proof (cases "userRole a")
  case None
  then show ?thesis by (simp add: effectiveRole_def)
next
  case (Some r)
  then show ?thesis by (simp add: effectiveRole_def effectiveRole_spec_def)
qed

text \<open>The amended C9 in the admin view, for an administrator and for the default state.\<close>

theorem effectiveRole_formula_witness:
  "userRole adminAuth \<noteq> None \<and>
   Some (effectiveRole Admin adminAuth) = effectiveRole_spec Admin adminAuth \<and>
   effectiveRole Admin adminAuth = Admin \<and>
   userRole defaultAuthState = None \<and> effectiveRole Admin defaultAuthState = User"
proof -
  have h1: "userRole adminAuth \<noteq> None" by (simp add: adminAuth_def)
  have h2: "userRole defaultAuthState = None" by (simp add: defaultAuthState_def)
  have spec: "effectiveRole_spec Admin adminAuth = Some Admin"
    by (simp add: effectiveRole_spec_def adminAuth_def)
  from effectiveRole_formula [of adminAuth Admin, THEN conjunct1, rule_format, OF h1]
    effectiveRole_formula [of defaultAuthState Admin, THEN conjunct2, rule_format, OF h2]
    h1 h2 spec
  show ?thesis by simp
qed

text \<open>
  C9 as stated fails in the admin view with a null role: the navigation bar falls back
  to \<open>"user"\<close>, the formula gives null.
\<close>

theorem effectiveRole_null_counterexample:
  "userRole defaultAuthState = None \<and>
   effectiveRole Admin defaultAuthState = User \<and>
   effectiveRole_spec Admin defaultAuthState = None \<and>
   Some (effectiveRole Admin defaultAuthState) \<noteq> effectiveRole_spec Admin defaultAuthState"
  by (simp add: effectiveRole_def effectiveRole_spec_def defaultAuthState_def)

subsection \<open>C10: a restored session has no login time\<close>

text \<open>
  C10. On an authenticated session with a client and \<open>lastLoginTime\<close> null, as a page
  reload restores it, the guard does not apply: whatever the time, \<open>refreshAccessToken\<close>
  is called, and it is the next call the backend receives.
\<close>

theorem refresh_without_lastLoginTime:
  assumes "isAuthenticated (authState s)" and "client s = Some c" and "lastLoginTime s = None"
  shows "requests (refreshTokenPeriodically w now now' s) =
           requests s @ CallRefreshAccessToken c #
             (case r2r_refreshAccessToken w c of Inr _ \<Rightarrow> [] | Inl _ \<Rightarrow> [CallLogout c])"
  using assms
  by (simp add: refreshTokenPeriodically_def refreshTooEarly_def logout_fields session_ops
      Let_def split: sum.splits)

text \<open>C10 on the session restored from the storage of a password login, one millisecond later.\<close>

theorem refresh_without_lastLoginTime_witness:
  "UserProvider True sample_world reload_store = Inr reload_session \<and>
   isAuthenticated (authState reload_session) \<and> client reload_session = Some admin_client \<and>
   lastLoginTime reload_session = None \<and>
   requests (refreshTokenPeriodically sample_world 1001 1002 reload_session) =
     [CallRefreshAccessToken admin_client]"
proof -
  have h1: "isAuthenticated (authState reload_session)"
    by (simp add: reload_session_def adminAuth_def)
  have h2: "client reload_session = Some admin_client"
    and h3: "lastLoginTime reload_session = None"
    by (simp_all add: reload_session_def)
  have rq: "requests reload_session = []"
    by (simp add: reload_session_def)
  from refresh_without_lastLoginTime [OF h1 h2 h3, of sample_world 1001 1002]
    UserProvider_reload h1 h2 h3 rq
  show ?thesis by (simp add: sample_backend)
qed

end
